theory Spec2Isabelle
  imports Main "HOL-Library.Word" "HOL-Library.Multiset"
begin

section \<open>The batch-mint hook (frontend/hooks/mintFractionAllowlistBatch.ts)\<close>

text \<open>A thrown JavaScript error, or the error object of a failed storage query.\<close>

datatype exn = Exn string

subsection \<open>The eligibility query\<close>

text \<open>
  A row of the eligibility table: the address it is for, the claim id, and the hidden
  flag. \<open>select("*")\<close> returns the rows whole; \<open>.eq(column, value)\<close> keeps the rows whose
  column holds the value.
\<close>

record eligibility_row =
  address :: string
  claimId :: string
  hidden :: bool

datatype cell = Str string | Bool bool

definition column :: "string \<Rightarrow> eligibility_row \<Rightarrow> cell option" where
  "column name x =
     (if name = ''address'' then Some (Str (address x))
      else if name = ''claimId'' then Some (Str (claimId x))
      else if name = ''hidden'' then Some (Bool (hidden x))
      else None)"

datatype query_filter = Eq string cell

fun matches :: "query_filter \<Rightarrow> eligibility_row \<Rightarrow> bool" where
  "matches (Eq name v) x = (column name x = Some v)"

text \<open>
  The table behind \<open>supabase.from(SUPABASE_TABLE)\<close>: its rows, or the error with which its
  queries fail. A response is \<open>{ data, error }\<close>: the rows and no error, or no data and the
  error.
\<close>

datatype storage = Up "eligibility_row list" | Down exn

record response =
  data :: "eligibility_row list option"
  error :: "exn option"

fun select_eq :: "storage \<Rightarrow> query_filter list \<Rightarrow> response" where
  "select_eq (Up rows) fs =
     \<lparr>data = Some (filter (\<lambda>x. list_all (\<lambda>f. matches f x) fs) rows), error = None\<rparr>"
| "select_eq (Down e) fs = \<lparr>data = None, error = Some e\<rparr>"

text \<open>\<open>String.prototype.toLowerCase\<close> on the characters of an address (ASCII).\<close>

definition toLowerCase_char :: "char \<Rightarrow> char" where
  "toLowerCase_char c =
     (if (65::nat) \<le> of_char c \<and> of_char c \<le> (90::nat)
      then char_of (of_char c + (32::nat)) else c)"

definition toLowerCase :: "string \<Rightarrow> string" where
  "toLowerCase s = map toLowerCase_char s"

datatype console_arg = Message string | ErrorObject exn

text \<open>
  The query function of \<open>useGetAllEligibility\<close>: the arguments of its \<open>console.error\<close>
  calls, and the list it returns.
\<close>

definition useGetAllEligibility :: "storage \<Rightarrow> string \<Rightarrow> console_arg list \<times> string list" where
  "useGetAllEligibility supabase addr =
     (let r = select_eq supabase
                [Eq ''address'' (Str (toLowerCase addr)), Eq ''hidden'' (Bool False)];
          logged = (case error r of
                      None \<Rightarrow> []
                    | Some e \<Rightarrow> [Message ''Supabase error:'', ErrorObject e]);
          claimIds = map_option (map (\<lambda>x. claimId x)) (data r)
      in (logged, (case claimIds of None \<Rightarrow> [] | Some ids \<Rightarrow> ids)))"

subsection \<open>Claim proofs and verifier results\<close>

text \<open>
  Modelled from the spec: the declaration of the type \<open>ClaimProof\<close>, which is in the
  verifier's module (\<open>./verifyFractionClaim\<close>) and not among the sources. The data model
  gives a claim proof four fields: the claim id, the units (a uint256), the proof (a
  sequence of 32-byte hashes) and the allowlist root (a 32-byte hash). The workflow reads
  the first three, as \<open>claimIDContract\<close>, \<open>units\<close> and \<open>proof\<close> (written \<open>proof'\<close> here, since
  \<open>proof\<close> is a keyword); hashes are hexadecimal strings.
\<close>

record ClaimProof =
  claimIDContract :: string
  units :: nat
  proof' :: "string list"
  root :: string

text \<open>
  What one element of the flattened results can be: a falsy value (\<open>undefined\<close>,
  \<open>null\<close>, \<open>false\<close>) or an object. A verifier result is one such value or an array of
  them; \<open>Array.prototype.flat()\<close> splices the arrays in, one level deep.
\<close>

datatype 'p js_item = Falsy | Obj 'p

datatype 'p verifier_result = Item "'p js_item" | Array "'p js_item list"

fun flat :: "'p verifier_result list \<Rightarrow> 'p js_item list" where
  "flat [] = []"
| "flat (Item x # rs) = x # flat rs"
| "flat (Array xs # rs) = xs @ flat rs"

text \<open>\<open>.filter((x) => x)\<close>: keeps the truthy elements, in order.\<close>

fun filter_truthy :: "'p js_item list \<Rightarrow> 'p list" where
  "filter_truthy [] = []"
| "filter_truthy (Falsy # xs) = filter_truthy xs"
| "filter_truthy (Obj p # xs) = p # filter_truthy xs"

text \<open>
  lodash's \<open>_.uniqWith(array, comparator)\<close>: walks the array from the left and pushes a
  value onto the result unless the comparator relates it to a value already there.
  \<open>_.isEqual\<close> is deep (structural) equality.
\<close>

fun baseUniq :: "('a \<Rightarrow> 'a \<Rightarrow> bool) \<Rightarrow> 'a list \<Rightarrow> 'a list \<Rightarrow> 'a list" where
  "baseUniq comparator [] result = result"
| "baseUniq comparator (v # vs) result =
     (if list_ex (\<lambda>seen. comparator v seen) result
      then baseUniq comparator vs result
      else baseUniq comparator vs (result @ [v]))"

definition uniqWith :: "'a list \<Rightarrow> ('a \<Rightarrow> 'a \<Rightarrow> bool) \<Rightarrow> 'a list" where
  "uniqWith array comparator = baseUniq comparator array []"

definition isEqual :: "'a \<Rightarrow> 'a \<Rightarrow> bool" where
  "isEqual a b = (a = b)"

text \<open>\<open>BigInt(n)\<close> of an integral number is that integer.\<close>

definition BigInt :: "nat \<Rightarrow> nat" where
  "BigInt n = n"

text \<open>The local constants of \<open>initializeWrite\<close> between the verifier calls and the mint.\<close>

definition verified_of :: "ClaimProof verifier_result list \<Rightarrow> ClaimProof list" where
  "verified_of results = filter_truthy (flat results)"

definition unique_of :: "ClaimProof verifier_result list \<Rightarrow> ClaimProof list" where
  "unique_of results = uniqWith (verified_of results) isEqual"

definition claimIDs_of :: "ClaimProof verifier_result list \<Rightarrow> string list" where
  "claimIDs_of results = map (\<lambda>claimProof. claimIDContract claimProof) (unique_of results)"

definition units_of :: "ClaimProof verifier_result list \<Rightarrow> nat list" where
  "units_of results = map (\<lambda>claimProof. BigInt (units claimProof)) (unique_of results)"

definition proofs_of :: "ClaimProof verifier_result list \<Rightarrow> string list list" where
  "proofs_of results = map (\<lambda>claimProof. proof' claimProof) (unique_of results)"

subsection \<open>The workflow and its effects\<close>

datatype step = initial | proofs | minting | waiting | complete

datatype toast_type = ToastError | ToastSuccess

text \<open>
  Every call the workflow makes on a collaborator is an event of its trace, in program
  order.
\<close>

datatype event =
    ShowModal
  | HideModal
  | SetStep step
  | VerifyFractionClaim string string
  | ConsoleLog
  | SetTxPending bool
  | BatchMintClaimFractionsFromAllowlists "string list" "nat list" "string list list"
  | TxWait nat
  | Toast string toast_type
  | ConsoleError
  | OnComplete

record receipt =
  status :: int

record tx =
  wait :: "nat \<Rightarrow> exn + receipt"

record client =
  batchMintClaimFractionsFromAllowlists ::
    "string list \<Rightarrow> nat list \<Rightarrow> string list list \<Rightarrow> exn + tx"

text \<open>
  What the hook closes over. \<open>address\<close> and \<open>claimIds\<close> may be undefined (\<open>None\<close>);
  \<open>client\<close> may be undefined while the SDK loads; \<open>onComplete\<close> is optional, and when
  supplied it returns (\<open>Some None\<close>) or throws (\<open>Some (Some e)\<close>). The toast labels come from
  \<open>mintInteractionLabels\<close>.
\<close>

record hook =
  address :: "string option"
  claimIds :: "string list option"
  verifyFractionClaim :: "string \<Rightarrow> string \<Rightarrow> exn + ClaimProof verifier_result"
  client :: "client option"
  onComplete :: "exn option option"
  parseError :: "exn \<Rightarrow> string \<Rightarrow> string"
  toastSuccess :: string
  toastError :: string

text \<open>
  \<open>Promise.all\<close>: every promise has been started; the result is the list of values, or the
  rejection of the first promise of the list that rejects.
\<close>

fun promise_all :: "(exn + 'a) list \<Rightarrow> exn + 'a list" where
  "promise_all [] = Inr []"
| "promise_all (Inl e # ps) = Inl e"
| "promise_all (Inr x # ps) =
     (case promise_all ps of Inl e \<Rightarrow> Inl e | Inr xs \<Rightarrow> Inr (x # xs))"

text \<open>The two \<open>if\<close>s after \<open>tx.wait(5)\<close>: the events, and what \<open>onComplete\<close> threw, if it did.\<close>

definition on_receipt :: "hook \<Rightarrow> receipt \<Rightarrow> event list \<times> exn option" where
  "on_receipt h r =
     ((if status r = 0 then [Toast ''Minting failed'' ToastError, ConsoleError] else []) @
      (if status r = 1
       then [Toast (toastSuccess h) ToastSuccess, SetStep complete] @
            (case onComplete h of None \<Rightarrow> [] | Some _ \<Rightarrow> [OnComplete])
       else []),
      (if status r = 1
       then (case onComplete h of None \<Rightarrow> None | Some thrown \<Rightarrow> thrown)
       else None))"

text \<open>The body of the \<open>try\<close> block: its events, and the exception that left it, if any.\<close>

definition try_body ::
  "hook \<Rightarrow> string list \<Rightarrow> nat list \<Rightarrow> string list list \<Rightarrow> event list \<times> exn option" where
  "try_body h claimIDs unitsL proofsL =
     (case client h of
        None \<Rightarrow> ([SetTxPending True], Some (Exn ''TypeError''))
      | Some c \<Rightarrow>
          (case batchMintClaimFractionsFromAllowlists c claimIDs unitsL proofsL of
             Inl e \<Rightarrow>
               ([SetTxPending True,
                 BatchMintClaimFractionsFromAllowlists claimIDs unitsL proofsL], Some e)
           | Inr t \<Rightarrow>
               (case wait t 5 of
                  Inl e \<Rightarrow>
                    ([SetTxPending True,
                      BatchMintClaimFractionsFromAllowlists claimIDs unitsL proofsL,
                      SetStep waiting, TxWait 5], Some e)
                | Inr r \<Rightarrow>
                    ([SetTxPending True,
                      BatchMintClaimFractionsFromAllowlists claimIDs unitsL proofsL,
                      SetStep waiting, TxWait 5] @ fst (on_receipt h r),
                     snd (on_receipt h r)))))"

text \<open>\<open>try { ... } catch (error) { toast; console.error } finally { setTxPending(false) }\<close>\<close>

definition try_catch_finally ::
  "hook \<Rightarrow> string list \<Rightarrow> nat list \<Rightarrow> string list list \<Rightarrow> event list" where
  "try_catch_finally h claimIDs unitsL proofsL =
     fst (try_body h claimIDs unitsL proofsL) @
     (case snd (try_body h claimIDs unitsL proofsL) of
        None \<Rightarrow> []
      | Some e \<Rightarrow> [Toast (parseError h e (toastError h)) ToastError, ConsoleError]) @
     [SetTxPending False]"

text \<open>
  \<open>initializeWrite\<close>: the trace of the run and how the promise settles (\<open>None\<close>: resolved,
  \<open>Some e\<close>: rejected with \<open>e\<close>). \<open>!address\<close> is true for \<open>undefined\<close> and for the empty
  string.
\<close>

definition initializeWrite :: "hook \<Rightarrow> event list \<times> exn option" where
  "initializeWrite h =
     (case address h of
        None \<Rightarrow> ([], Some (Exn ''No address found for current user''))
      | Some a \<Rightarrow>
          if a = [] then ([], Some (Exn ''No address found for current user''))
          else
            (case claimIds h of
               None \<Rightarrow> ([], Some (Exn ''No claim ids found for the current user''))
             | Some ids \<Rightarrow>
                 (case promise_all (map (\<lambda>claimId. verifyFractionClaim h claimId a) ids) of
                    Inl e \<Rightarrow>
                      ([SetStep proofs] @ (if length ids = 0 then [HideModal] else []) @
                       map (\<lambda>claimId. VerifyFractionClaim claimId a) ids, Some e)
                  | Inr results \<Rightarrow>
                      ([SetStep proofs] @ (if length ids = 0 then [HideModal] else []) @
                       map (\<lambda>claimId. VerifyFractionClaim claimId a) ids @
                       [ConsoleLog, ConsoleLog, ConsoleLog, ConsoleLog, SetStep minting] @
                       try_catch_finally h (claimIDs_of results) (units_of results)
                         (proofs_of results),
                       None))))"

text \<open>The hook's \<open>write\<close> (\<open>write'\<close> here, \<open>write\<close> being a keyword): opens the modal, sets the first step, runs the workflow.\<close>

definition write' :: "hook \<Rightarrow> event list \<times> exn option" where
  "write' h = ([ShowModal, SetStep initial] @ fst (initializeWrite h), snd (initializeWrite h))"

text \<open>
  The \<open>txPending\<close> state: \<open>useState(false)\<close>, changed by \<open>setTxPending\<close> only.
  \<open>txPending_after b es\<close> is its value after the events \<open>es\<close>, started at \<open>b\<close>;
  \<open>observed b es\<close> pairs every event with the value the flag has when the event happens.
\<close>

fun txPending_after :: "bool \<Rightarrow> event list \<Rightarrow> bool" where
  "txPending_after b [] = b"
| "txPending_after b (SetTxPending v # es) = txPending_after v es"
| "txPending_after b (e # es) = txPending_after b es"

fun observed :: "bool \<Rightarrow> event list \<Rightarrow> (event \<times> bool) list" where
  "observed b [] = []"
| "observed b (e # es) = (e, b) # observed (txPending_after b [e]) es"

subsection \<open>Example runs\<close>

text \<open>A client whose transactions are mined with the given receipt status.\<close>

definition client_with_status :: "int \<Rightarrow> client" where
  "client_with_status n =
     \<lparr>batchMintClaimFractionsFromAllowlists =
        (\<lambda>ids us ps. Inr \<lparr>wait = (\<lambda>confirmations. Inr \<lparr>status = n\<rparr>)\<rparr>)\<rparr>"

definition proof_A :: ClaimProof where
  "proof_A =
     \<lparr>claimIDContract = ''1'', units = 50, proof' = [''0x0a'', ''0x0b''], root = ''0xf1''\<rparr>"

definition proof_B :: ClaimProof where
  "proof_B = \<lparr>claimIDContract = ''2'', units = 70, proof' = [''0x0c''], root = ''0xf2''\<rparr>"


definition example_verifier :: "string \<Rightarrow> string \<Rightarrow> exn + ClaimProof verifier_result" where
  "example_verifier cid a =
     (if cid = ''1'' then Inr (Item (Obj proof_A))
      else if cid = ''2'' then Inr (Array [Obj proof_B, Obj proof_A])
      else Inr (Item Falsy))"

text \<open>A connected user with the given eligible claim ids and a supplied callback.\<close>

definition example_hook :: "string list \<Rightarrow> int \<Rightarrow> hook" where
  "example_hook ids n =
     \<lparr>address = Some ''0xaa'', claimIds = Some ids, verifyFractionClaim = example_verifier,
      client = Some (client_with_status n), onComplete = Some None,
      parseError = (\<lambda>e fallback. fallback), toastSuccess = ''Minted'',
      toastError = ''Failed''\<rparr>"

text \<open>The same user while the SDK client is still undefined.\<close>

definition example_hook_no_client :: hook where
  "example_hook_no_client = (example_hook [''1''] 1)\<lparr>client := None\<rparr>"

definition example_rows :: "eligibility_row list" where
  "example_rows =
     [\<lparr>eligibility_row.address = ''0xaa'', claimId = ''1'', hidden = False\<rparr>,
      \<lparr>eligibility_row.address = ''0xaa'', claimId = ''2'', hidden = True\<rparr>,
      \<lparr>eligibility_row.address = ''0xbb'', claimId = ''3'', hidden = False\<rparr>,
      \<lparr>eligibility_row.address = ''0xaa'', claimId = ''4'', hidden = False\<rparr>]"

section \<open>The Hyperboard contracts\<close>

type_synonym address = "160 word"
type_synonym uint256 = "256 word"
type_synonym bytes32 = "256 word"
type_synonym uint8 = "8 word"

text \<open>
  A reverted call: a custom error of the \<open>Errors\<close> library, or a revert of inherited
  library code with its reason string.
\<close>

datatype Errors =
    ZeroAddress
  | InvalidSigner
  | NotApprovedOrOwner
  | NotOwner
  | ArrayLengthMismatch
  | FailedToSendEther
  | FailedToSendToken
  | Revert string

subsection \<open>Hyperboard with consent (the ERC721, Ownable, EIP712 contract)\<close>

datatype hb_event =
    Mint address uint256 string
  | GotConsent uint256 uint256 address
  | WithdrawToken address address uint256
  | SubgraphUpdated string
  | BaseUriUpdated string
  | HypercertMinterUpdated address

text \<open>
  The contract's state variables, with the inherited ones the functions below read:
  \<open>owners\<close> is ERC721's \<open>_owners\<close>, \<open>owner\<close> is Ownable's \<open>_owner\<close>. The private
  \<open>_allowListedCertsMapping\<close> and \<open>_counter\<close> are written without the underscore.
\<close>

record Hyperboard =
  subgraphEndpoint :: string
  baseUri :: string
  hypercertMinter :: address
  allowListedCertsMapping :: "uint256 \<Rightarrow> uint256 list"
  consentBasedCertsMapping :: "uint256 \<Rightarrow> uint256 list"
  counter :: uint256
  owners :: "uint256 \<Rightarrow> address"
  tokenURIs :: "uint256 \<Rightarrow> string"
  owner :: address

text \<open>
  What the contract calls outside itself: the \<open>keccak256\<close> builtin, EIP712's
  \<open>_hashTypedDataV4\<close>, \<open>ECDSA.recover\<close> (which reverts on a malformed signature), and
  \<open>ownerOf\<close> of the HypercertMinter deployed at an address.
\<close>

record chain =
  keccak256 :: "8 word list \<Rightarrow> bytes32"
  hashTypedDataV4 :: "bytes32 \<Rightarrow> bytes32"
  ECDSA_recover :: "bytes32 \<Rightarrow> uint8 \<Rightarrow> bytes32 \<Rightarrow> bytes32 \<Rightarrow> Errors + address"
  HypercertMinter_ownerOf :: "address \<Rightarrow> uint256 \<Rightarrow> Errors + address"

text \<open>\<open>abi.encode\<close> of 32-byte values: each as 32 big-endian bytes, one after the other.\<close>

definition bytes_of_word :: "256 word \<Rightarrow> 8 word list" where
  "bytes_of_word w = map (\<lambda>i. ucast (drop_bit (8 * (31 - i)) w)) [0..<32]"

definition abi_encode :: "256 word list \<Rightarrow> 8 word list" where
  "abi_encode ws = concat (map bytes_of_word ws)"

definition bytes_of_string :: "string \<Rightarrow> 8 word list" where
  "bytes_of_string s = map (\<lambda>c. of_char c) s"

definition getDigestForConsent :: "chain \<Rightarrow> uint256 \<Rightarrow> uint256 \<Rightarrow> bytes32" where
  "getDigestForConsent env tokenId' claimId' =
     hashTypedDataV4 env
       (keccak256 env
          (abi_encode
             [keccak256 env
                (bytes_of_string ''ConsentForHyperBoard(uint256 tokenId_,uint256 claimId_)''),
              tokenId', claimId']))"

text \<open>
  \<open>_consentForHyperboard\<close>. A call returns the new state and the events it emits, or the
  error it reverts with, the state then being the one before the call.
\<close>

definition consentForHyperboard' ::
  "chain \<Rightarrow> Hyperboard \<Rightarrow> address \<Rightarrow> uint256 \<Rightarrow> uint256 \<Rightarrow> address
   \<Rightarrow> Errors + Hyperboard \<times> hb_event list" where
  "consentForHyperboard' env st msg_sender tokenId' claimId' owner' =
     (case HypercertMinter_ownerOf env (hypercertMinter st) claimId' of
        Inl e \<Rightarrow> Inl e
      | Inr holder \<Rightarrow>
          if holder \<noteq> owner' then Inl NotApprovedOrOwner
          else Inr (st\<lparr>consentBasedCertsMapping :=
                         (consentBasedCertsMapping st)
                           (tokenId' := consentBasedCertsMapping st tokenId' @ [claimId'])\<rparr>,
                    [GotConsent tokenId' claimId' msg_sender]))"

definition consentForHyperboard ::
  "chain \<Rightarrow> Hyperboard \<Rightarrow> address \<Rightarrow> uint256 \<Rightarrow> uint256
   \<Rightarrow> Errors + Hyperboard \<times> hb_event list" where
  "consentForHyperboard env st msg_sender tokenId' claimId' =
     consentForHyperboard' env st msg_sender tokenId' claimId' msg_sender"

definition consentForHyperboardWithSignature ::
  "chain \<Rightarrow> Hyperboard \<Rightarrow> address \<Rightarrow> uint256 \<Rightarrow> uint256 \<Rightarrow> address
   \<Rightarrow> bytes32 \<Rightarrow> bytes32 \<Rightarrow> uint8 \<Rightarrow> Errors + Hyperboard \<times> hb_event list" where
  "consentForHyperboardWithSignature env st msg_sender tokenId' claimId' signer r s v =
     (let digest =
            hashTypedDataV4 env
              (keccak256 env
                 (abi_encode
                    [keccak256 env
                       (bytes_of_string
                          ''ConsentForHyperBoard(uint256 tokenId_,uint256 claimId_)''),
                     tokenId', claimId']))
      in case ECDSA_recover env digest v r s of
           Inl e \<Rightarrow> Inl e
         | Inr recoveredSigner \<Rightarrow>
             if recoveredSigner \<noteq> signer then Inl InvalidSigner
             else consentForHyperboard' env st msg_sender tokenId' claimId' signer)"

text \<open>Ownable's \<open>onlyOwner\<close> modifier, around a function body.\<close>

definition onlyOwner ::
  "Hyperboard \<Rightarrow> address \<Rightarrow> (Errors + Hyperboard \<times> hb_event list)
   \<Rightarrow> Errors + Hyperboard \<times> hb_event list" where
  "onlyOwner st msg_sender body =
     (if owner st \<noteq> msg_sender then Inl (Revert ''Ownable: caller is not the owner'')
      else body)"

definition setSubgraphEndpoint ::
  "Hyperboard \<Rightarrow> address \<Rightarrow> string \<Rightarrow> Errors + Hyperboard \<times> hb_event list" where
  "setSubgraphEndpoint st msg_sender endpoint' =
     onlyOwner st msg_sender
       (let st1 = st\<lparr>subgraphEndpoint := endpoint'\<rparr>
        in Inr (st1, [SubgraphUpdated (subgraphEndpoint st1)]))"

definition setBaseUri ::
  "Hyperboard \<Rightarrow> address \<Rightarrow> string \<Rightarrow> Errors + Hyperboard \<times> hb_event list" where
  "setBaseUri st msg_sender baseUri' =
     onlyOwner st msg_sender
       (let st1 = st\<lparr>baseUri := baseUri'\<rparr>
        in Inr (st1, [BaseUriUpdated (baseUri st1)]))"

text \<open>
  \<open>setHypercertContract\<close>: the statement \<open>hypercertMinter_ = hypercertMinter;\<close> assigns to
  the parameter, a local variable, which the \<open>emit\<close> then reads.
\<close>

definition setHypercertContract ::
  "Hyperboard \<Rightarrow> address \<Rightarrow> address \<Rightarrow> Errors + Hyperboard \<times> hb_event list" where
  "setHypercertContract st msg_sender hypercertMinter' =
     onlyOwner st msg_sender
       (let hypercertMinter' = hypercertMinter st
        in Inr (st, [HypercertMinterUpdated hypercertMinter']))"

subsection \<open>Hyperboard with per-certificate allowlists (HyperboardNFT.sol)\<close>

record AllowlistedCerts =
  allowlistedCerts :: "address list"
  claimIds :: "address \<Rightarrow> uint256 list"

text \<open>
  The state variables of the contract, with ERC721's \<open>_name\<close>, \<open>_symbol\<close> and \<open>_owners\<close> and
  Ownable's \<open>_owner\<close>.
\<close>

record HyperboardNFT =
  subgraphEndpoint :: string
  baseUri :: string
  walletImpl :: address
  erc6551Registry :: address
  allowListedCertsMapping :: "uint256 \<Rightarrow> AllowlistedCerts"
  tokenWalletMapping :: "uint256 \<Rightarrow> address"
  counter :: uint256
  name :: string
  symbol :: string
  owners :: "uint256 \<Rightarrow> address"
  owner :: address

text \<open>The storage of a contract under construction: every variable has its zero value.\<close>

definition fresh_storage :: HyperboardNFT where
  "fresh_storage =
     \<lparr>subgraphEndpoint = [], baseUri = [], walletImpl = 0, erc6551Registry = 0,
      allowListedCertsMapping = (\<lambda>tokenId. \<lparr>allowlistedCerts = [], claimIds = (\<lambda>cert. [])\<rparr>),
      tokenWalletMapping = (\<lambda>tokenId. 0), counter = 0, name = [], symbol = [],
      owners = (\<lambda>tokenId. 0), owner = 0\<rparr>"

text \<open>
  The constructor body on the storage it finds. Its two guards read the state variables
  \<open>walletImpl\<close> and \<open>erc6551Registry\<close>; the assignments from the parameters come after
  them. \<open>__ERC721_init\<close> stores the name and the symbol.
\<close>

definition constructor_body ::
  "HyperboardNFT \<Rightarrow> string \<Rightarrow> string \<Rightarrow> string \<Rightarrow> string \<Rightarrow> address \<Rightarrow> address
   \<Rightarrow> Errors + HyperboardNFT" where
  "constructor_body st name' symbol' subgraphEndpoint' baseUri' walletImpl' erc6551Registry' =
     (if walletImpl st = 0 then Inl ZeroAddress
      else if erc6551Registry st = 0 then Inl ZeroAddress
      else Inr (st\<lparr>walletImpl := walletImpl', erc6551Registry := erc6551Registry',
                   name := name', symbol := symbol',
                   subgraphEndpoint := subgraphEndpoint', baseUri := baseUri'\<rparr>))"

definition constructor ::
  "string \<Rightarrow> string \<Rightarrow> string \<Rightarrow> string \<Rightarrow> address \<Rightarrow> address \<Rightarrow> Errors + HyperboardNFT" where
  "constructor name' symbol' subgraphEndpoint' baseUri' walletImpl' erc6551Registry' =
     constructor_body fresh_storage name' symbol' subgraphEndpoint' baseUri' walletImpl'
       erc6551Registry'"

text \<open>ERC721's \<open>ownerOf\<close> and \<open>_mint\<close>, on the owners table.\<close>

definition ownerOf :: "HyperboardNFT \<Rightarrow> uint256 \<Rightarrow> Errors + address" where
  "ownerOf st tokenId =
     (if owners st tokenId = 0 then Inl (Revert ''ERC721: invalid token ID'')
      else Inr (owners st tokenId))"

definition mint' :: "HyperboardNFT \<Rightarrow> address \<Rightarrow> uint256 \<Rightarrow> Errors + HyperboardNFT" where
  "mint' st to tokenId =
     (if to = 0 then Inl (Revert ''ERC721: mint to the zero address'')
      else if owners st tokenId \<noteq> 0 then Inl (Revert ''ERC721: token already minted'')
      else Inr (st\<lparr>owners := (owners st)(tokenId := to)\<rparr>))"

text \<open>
  \<open>_setAllowlist\<close>. The certificate addresses are stored under \<open>tokenId\<close>; the loop body
  stores \<open>allowlistedClaimIds_[i]\<close> under the key \<open>_counter.current()\<close>.
\<close>

definition setAllowlist_body ::
  "address list \<Rightarrow> uint256 list list \<Rightarrow> nat \<Rightarrow> HyperboardNFT \<Rightarrow> HyperboardNFT" where
  "setAllowlist_body certs ids i st =
     st\<lparr>allowListedCertsMapping :=
          (allowListedCertsMapping st)
            (counter st :=
               (allowListedCertsMapping st (counter st))
                 \<lparr>claimIds :=
                    (claimIds (allowListedCertsMapping st (counter st)))
                      (certs ! i := ids ! i)\<rparr>)\<rparr>"

definition setAllowlist ::
  "HyperboardNFT \<Rightarrow> uint256 \<Rightarrow> address list \<Rightarrow> uint256 list list \<Rightarrow> Errors + HyperboardNFT" where
  "setAllowlist st tokenId certs ids =
     (if length certs \<noteq> length ids then Inl ArrayLengthMismatch
      else Inr (fold (setAllowlist_body certs ids) [0..<length certs]
                  (st\<lparr>allowListedCertsMapping :=
                        (allowListedCertsMapping st)
                          (tokenId :=
                             (allowListedCertsMapping st tokenId)
                               \<lparr>allowlistedCerts := certs\<rparr>)\<rparr>)))"

text \<open>
  \<open>mint\<close>; \<open>createAccount\<close> is the call to the ERC-6551 registry at the stored address, with
  the wallet implementation, the token id and the salt.
\<close>

definition mint ::
  "(address \<Rightarrow> address \<Rightarrow> uint256 \<Rightarrow> uint256 \<Rightarrow> Errors + address) \<Rightarrow> HyperboardNFT \<Rightarrow> address
   \<Rightarrow> address list \<Rightarrow> uint256 list list \<Rightarrow> uint256 \<Rightarrow> Errors + HyperboardNFT \<times> uint256" where
  "mint createAccount st to certs ids salt =
     (if length certs \<noteq> length ids then Inl ArrayLengthMismatch
      else if to = 0 then Inl ZeroAddress
      else
        (let tokenId = counter st in
           case mint' st to tokenId of
             Inl e \<Rightarrow> Inl e
           | Inr st1 \<Rightarrow>
               (case setAllowlist st1 tokenId certs ids of
                  Inl e \<Rightarrow> Inl e
                | Inr st2 \<Rightarrow>
                    (case createAccount (erc6551Registry st2) (walletImpl st2) tokenId salt of
                       Inl e \<Rightarrow> Inl e
                     | Inr account \<Rightarrow>
                         Inr (st2\<lparr>tokenWalletMapping :=
                                    (tokenWalletMapping st2)(tokenId := account),
                                  counter := counter st2 + 1\<rparr>, tokenId)))))"

definition updateAllowListedCerts ::
  "HyperboardNFT \<Rightarrow> address \<Rightarrow> uint256 \<Rightarrow> address list \<Rightarrow> uint256 list list
   \<Rightarrow> Errors + HyperboardNFT" where
  "updateAllowListedCerts st msg_sender tokenId certs ids =
     (case ownerOf st tokenId of
        Inl e \<Rightarrow> Inl e
      | Inr holder \<Rightarrow>
          if holder \<noteq> msg_sender then Inl NotOwner
          else setAllowlist st tokenId certs ids)"

definition getAllowListedCerts :: "HyperboardNFT \<Rightarrow> uint256 \<Rightarrow> address list" where
  "getAllowListedCerts st tokenId = allowlistedCerts (allowListedCertsMapping st tokenId)"

definition getAllowListedClaimIds :: "HyperboardNFT \<Rightarrow> uint256 \<Rightarrow> address \<Rightarrow> uint256 list" where
  "getAllowListedClaimIds st tokenId hypercertAddress =
     claimIds (allowListedCertsMapping st tokenId) hypercertAddress"

subsection \<open>Example states\<close>

text \<open>
  A chain on which the signature with \<open>r = 1\<close> recovers to the account \<open>0xA1\<close>, every
  other one to \<open>0xB2\<close>, and \<open>0xA1\<close> owns every hypercert claim.
\<close>

definition example_chain :: chain where
  "example_chain =
     \<lparr>keccak256 = (\<lambda>bs. of_nat (length bs)), hashTypedDataV4 = (\<lambda>h. h + 1),
      ECDSA_recover = (\<lambda>digest v r s. if r = 1 then Inr 0xA1 else Inr 0xB2),
      HypercertMinter_ownerOf = (\<lambda>minter claim. Inr 0xA1)\<rparr>"

definition example_board :: Hyperboard where
  "example_board =
     \<lparr>Hyperboard.subgraphEndpoint = ''graph'', baseUri = ''ipfs'', hypercertMinter = 0xC3,
      allowListedCertsMapping = (\<lambda>tokenId. []), consentBasedCertsMapping = (\<lambda>tokenId. []),
      counter = 1, owners = (\<lambda>tokenId. if tokenId = 0 then 0xA1 else 0),
      tokenURIs = (\<lambda>tokenId. []), owner = 0xD4\<rparr>"

text \<open>
  A registry that creates the account \<open>0xE5\<close>, and the board obtained by minting token 0 to
  \<open>0xA1\<close> on storage whose wallet implementation and registry are set.
\<close>

definition example_registry :: "address \<Rightarrow> address \<Rightarrow> uint256 \<Rightarrow> uint256 \<Rightarrow> Errors + address" where
  "example_registry registry impl tokenId salt = Inr 0xE5"

definition configured_storage :: HyperboardNFT where
  "configured_storage = fresh_storage\<lparr>walletImpl := 0x11, erc6551Registry := 0x22\<rparr>"

definition minted_board :: HyperboardNFT where
  "minted_board =
     (case mint example_registry configured_storage 0xA1 [0xCE] [[1, 2]] 0 of
        Inl e \<Rightarrow> configured_storage
      | Inr (st, tokenId) \<Rightarrow> st)"

section \<open>Properties of the batch-mint hook\<close>

subsection \<open>Deduplication keeps the first copy of every value\<close>

lemma set_baseUniq: "set (baseUniq isEqual xs acc) = set xs \<union> set acc"
  by (induction xs arbitrary: acc) (auto simp: isEqual_def list_ex_iff)

lemma distinct_baseUniq: "distinct acc \<Longrightarrow> distinct (baseUniq isEqual xs acc)"
  by (induction xs arbitrary: acc) (auto simp: isEqual_def list_ex_iff)

lemma set_uniqWith: "set (uniqWith xs isEqual) = set xs"
  by (simp add: uniqWith_def set_baseUniq)

lemma distinct_uniqWith: "distinct (uniqWith xs isEqual)"
  by (simp add: uniqWith_def distinct_baseUniq)


lemma set_filter_truthy: "set (filter_truthy xs) = {p. Obj p \<in> set xs}"
  by (induction xs rule: filter_truthy.induct) auto



lemma example_unique:
  "unique_of [Item (Obj proof_A), Array [Obj proof_B, Obj proof_A], Item Falsy] =
   [proof_A, proof_B]"
  by (simp add: unique_of_def verified_of_def uniqWith_def isEqual_def proof_A_def proof_B_def)

text \<open>
  C2. For every list of verifier results, the claim ids, the unit amounts and the proof
  arrays handed to the mint are as long as the deduplicated list of claim proofs, which
  has no repetition and holds exactly the objects among the flattened results; at every
  position the three entries are the \<open>claimIDContract\<close>, \<open>units\<close> and \<open>proof\<close> of the claim
  proof at that position.
\<close>

theorem batch_sequences_aligned:
  "length (claimIDs_of rs) = length (unique_of rs) \<and>
   length (units_of rs) = length (unique_of rs) \<and>
   length (proofs_of rs) = length (unique_of rs) \<and>
   distinct (unique_of rs) \<and>
   set (unique_of rs) = {p. Obj p \<in> set (flat rs)} \<and>
   (\<forall>i < length (unique_of rs).
      claimIDs_of rs ! i = claimIDContract (unique_of rs ! i) \<and>
      units_of rs ! i = units (unique_of rs ! i) \<and>
      proofs_of rs ! i = proof' (unique_of rs ! i))"
  by (simp add: claimIDs_of_def units_of_def proofs_of_def BigInt_def unique_of_def verified_of_def
      distinct_uniqWith set_uniqWith set_filter_truthy)

theorem batch_sequences_aligned_witness:
  "(1::nat) < length (unique_of [Item (Obj proof_A), Array [Obj proof_B, Obj proof_A], Item Falsy]) \<and>
   claimIDs_of [Item (Obj proof_A), Array [Obj proof_B, Obj proof_A], Item Falsy] ! 1 = ''2'' \<and>
   units_of [Item (Obj proof_A), Array [Obj proof_B, Obj proof_A], Item Falsy] ! 1 = 70 \<and>
   proofs_of [Item (Obj proof_A), Array [Obj proof_B, Obj proof_A], Item Falsy] ! 1 = [''0x0c'']"
proof -
  let ?rs = "[Item (Obj proof_A), Array [Obj proof_B, Obj proof_A], Item Falsy]"
  have len: "(1::nat) < length (unique_of ?rs)"
    by (simp add: example_unique)
  with batch_sequences_aligned [of ?rs] have
    "claimIDs_of ?rs ! 1 = claimIDContract (unique_of ?rs ! 1) \<and>
     units_of ?rs ! 1 = units (unique_of ?rs ! 1) \<and>
     proofs_of ?rs ! 1 = proof' (unique_of ?rs ! 1)"
    by blast
  with len show ?thesis
    unfolding example_unique by (simp add: proof_B_def)
qed




subsection \<open>The empty list of eligible claims\<close>

text \<open>
  C1. With a connected address, an empty list of eligible claim ids, a client whose
  transaction is mined with status 1 and a callback, the workflow hides the modal and goes
  on: it submits the batch mint with three empty sequences, waits for the receipt and
  calls the completion callback.
\<close>

theorem empty_claim_list_still_mints:
  "initializeWrite (example_hook [] 1) =
     ([SetStep proofs, HideModal, ConsoleLog, ConsoleLog, ConsoleLog, ConsoleLog,
       SetStep minting, SetTxPending True, BatchMintClaimFractionsFromAllowlists [] [] [],
       SetStep waiting, TxWait 5, Toast ''Minted'' ToastSuccess, SetStep complete, OnComplete,
       SetTxPending False], None)"
  by (simp add: initializeWrite_def example_hook_def example_verifier_def client_with_status_def
      try_catch_finally_def try_body_def on_receipt_def claimIDs_of_def units_of_def proofs_of_def
      unique_of_def verified_of_def uniqWith_def isEqual_def BigInt_def)

text \<open>The same for every hook with an address, an empty list and a client.\<close>

lemma empty_list_reaches_mint:
  assumes "hook.address h = Some a" and "a \<noteq> []" and "hook.claimIds h = Some []"
    and "client h = Some c"
  shows "BatchMintClaimFractionsFromAllowlists [] [] [] \<in> set (fst (initializeWrite h))"
  using assms
  by (simp add: initializeWrite_def try_catch_finally_def try_body_def claimIDs_of_def units_of_def
      proofs_of_def unique_of_def verified_of_def uniqWith_def split: sum.splits)

subsection \<open>The receipt\<close>




subsection \<open>The pending flag\<close>

lemma txPending_after_append:
  "txPending_after b (xs @ ys) = txPending_after (txPending_after b xs) ys"
  by (induction b xs rule: txPending_after.induct) auto

lemma txPending_after_Cons:
  "txPending_after (txPending_after b [e]) es = txPending_after b (e # es)"
  using txPending_after_append [of b "[e]" es] by simp

lemma observed_append:
  "observed b (xs @ ys) = observed b xs @ observed (txPending_after b xs) ys"
  by (induction xs arbitrary: b) (simp_all add: txPending_after_Cons)

lemma txPending_after_verify:
  "txPending_after b (map (\<lambda>c. VerifyFractionClaim c a) ids) = b"
  by (induction ids) auto

lemma observed_quiet:
  "(\<forall>v. SetTxPending v \<notin> set xs) \<Longrightarrow>
   map snd (observed b xs) = replicate (length xs) b \<and> txPending_after b xs = b"
proof (induction xs)
  case Nil
  then show ?case by simp
next
  case (Cons e es)
  then show ?case by (cases e) auto
qed

text \<open>The events of the \<open>try\<close> block after \<open>setTxPending(true)\<close> and those of the handler.\<close>

lemma try_catch_finally_shape:
  "\<exists>mid. try_catch_finally h i u p = [SetTxPending True] @ mid @ [SetTxPending False] \<and>
     (\<forall>v. SetTxPending v \<notin> set mid) \<and>
     (case client h of
        None \<Rightarrow> mid = [Toast (parseError h (Exn ''TypeError'') (toastError h)) ToastError,
                       ConsoleError]
      | Some c \<Rightarrow> \<exists>rest. mid = BatchMintClaimFractionsFromAllowlists i u p # rest)"
proof -
  let ?mid = "tl (fst (try_body h i u p)) @
     (case snd (try_body h i u p) of
        None \<Rightarrow> []
      | Some e \<Rightarrow> [Toast (parseError h e (toastError h)) ToastError, ConsoleError])"
  have "try_catch_finally h i u p = [SetTxPending True] @ ?mid @ [SetTxPending False]"
    by (simp add: try_catch_finally_def try_body_def split: option.splits sum.splits)
  moreover have "\<forall>v. SetTxPending v \<notin> set ?mid"
    by (auto simp: try_body_def on_receipt_def split: option.splits sum.splits if_splits)
  moreover have "(case client h of
        None \<Rightarrow> ?mid = [Toast (parseError h (Exn ''TypeError'') (toastError h)) ToastError,
                       ConsoleError]
      | Some c \<Rightarrow> \<exists>rest. ?mid = BatchMintClaimFractionsFromAllowlists i u p # rest)"
    by (simp add: try_body_def split: option.splits sum.splits)
  ultimately show ?thesis
    by blast
qed

lemma flags_around_try:
  assumes pre: "\<forall>v. SetTxPending v \<notin> set pre" and mid: "\<forall>v. SetTxPending v \<notin> set mid"
  shows "map snd (observed False
           (pre @ [SetStep minting, SetTxPending True] @ mid @ [SetTxPending False])) =
         replicate (length pre) False @ [False, False] @ replicate (length mid) True @ [True] \<and>
         txPending_after False
           (pre @ [SetStep minting, SetTxPending True] @ mid @ [SetTxPending False]) = False"
  using observed_quiet [OF pre, of False] observed_quiet [OF mid, of True]
  by (simp add: observed_append txPending_after_append)

lemma initializeWrite_threw:
  "snd (initializeWrite h) \<noteq> None \<Longrightarrow>
   map snd (observed False (fst (initializeWrite h))) =
     replicate (length (fst (initializeWrite h))) False \<and>
   txPending_after False (fst (initializeWrite h)) = False"
  by (rule observed_quiet)
    (auto simp: initializeWrite_def split: option.splits sum.splits if_splits)

lemma initializeWrite_ran:
  "snd (initializeWrite h) = None \<Longrightarrow>
   \<exists>a ids results.
     fst (initializeWrite h) =
       ([SetStep proofs] @ (if length ids = 0 then [HideModal] else []) @
        map (\<lambda>c. VerifyFractionClaim c a) ids @
        [ConsoleLog, ConsoleLog, ConsoleLog, ConsoleLog]) @
       [SetStep minting] @
       try_catch_finally h (claimIDs_of results) (units_of results) (proofs_of results)"
  by (auto simp: initializeWrite_def split: option.splits sum.splits if_splits)

text \<open>
  C5. In every run of the workflow, started with \<open>txPending\<close> false, the flag is false when
  the run ends, whether it resolved or threw. A run that throws before the \<open>try\<close>
  statement never sets the flag. Every other run resolves, and its actions are: those
  before the \<open>try\<close> statement, ending with \<open>setStep("minting")\<close>; then \<open>setTxPending(true)\<close>;
  then the rest of the \<open>try\<close> block and of the \<open>catch\<close> handler; then the \<open>finally\<close> block's
  \<open>setTxPending(false)\<close>, the last action. The flag is false at every action up to and
  including \<open>setTxPending(true)\<close> and true at every action after it. The first action
  after \<open>setTxPending(true)\<close> is the submission of the transaction when there is a client;
  with no client nothing is submitted, and the flag is true during the error notification.
\<close>

theorem txPending_scoped:
  "txPending_after False (fst (initializeWrite h)) = False \<and>
   ((snd (initializeWrite h) \<noteq> None \<and>
     map snd (observed False (fst (initializeWrite h))) =
       replicate (length (fst (initializeWrite h))) False) \<or>
    (\<exists>pre mid.
       snd (initializeWrite h) = None \<and>
       fst (initializeWrite h) =
         pre @ [SetStep minting, SetTxPending True] @ mid @ [SetTxPending False] \<and>
       map snd (observed False (fst (initializeWrite h))) =
         replicate (length pre) False @ [False, False] @ replicate (length mid) True @ [True] \<and>
       (case client h of
          None \<Rightarrow>
            mid = [Toast (parseError h (Exn ''TypeError'') (toastError h)) ToastError,
                   ConsoleError]
        | Some c \<Rightarrow> \<exists>ids us ps rest.
            mid = BatchMintClaimFractionsFromAllowlists ids us ps # rest)))"
proof (cases "snd (initializeWrite h)")
  case (Some e)
  then show ?thesis
    using initializeWrite_threw [of h] by simp
next
  case None
  from initializeWrite_ran [OF None] obtain a ids results where
    tr: "fst (initializeWrite h) =
       ([SetStep proofs] @ (if length ids = 0 then [HideModal] else []) @
        map (\<lambda>c. VerifyFractionClaim c a) ids @
        [ConsoleLog, ConsoleLog, ConsoleLog, ConsoleLog]) @
       [SetStep minting] @
       try_catch_finally h (claimIDs_of results) (units_of results) (proofs_of results)"
    by blast
  let ?pre = "[SetStep proofs] @ (if length ids = 0 then [HideModal] else []) @
        map (\<lambda>c. VerifyFractionClaim c a) ids @
        [ConsoleLog, ConsoleLog, ConsoleLog, ConsoleLog]"
  from try_catch_finally_shape [of h "claimIDs_of results" "units_of results" "proofs_of results"]
  obtain mid where
    shape: "try_catch_finally h (claimIDs_of results) (units_of results) (proofs_of results) =
       [SetTxPending True] @ mid @ [SetTxPending False]"
    and no_set: "\<forall>v. SetTxPending v \<notin> set mid"
    and first: "(case client h of
        None \<Rightarrow> mid = [Toast (parseError h (Exn ''TypeError'') (toastError h)) ToastError,
                       ConsoleError]
      | Some c \<Rightarrow> \<exists>rest. mid = BatchMintClaimFractionsFromAllowlists (claimIDs_of results)
                               (units_of results) (proofs_of results) # rest)"
    by blast
  have pre_quiet: "\<forall>v. SetTxPending v \<notin> set ?pre"
    by auto
  have whole: "fst (initializeWrite h) =
      ?pre @ [SetStep minting, SetTxPending True] @ mid @ [SetTxPending False]"
    using tr shape by simp
  from flags_around_try [OF pre_quiet no_set]
  have all_flags: "map snd (observed False (fst (initializeWrite h))) =
      replicate (length ?pre) False @ [False, False] @ replicate (length mid) True @ [True]"
    and end_False: "txPending_after False (fst (initializeWrite h)) = False"
    unfolding whole by blast+
  have first': "(case client h of
          None \<Rightarrow>
            mid = [Toast (parseError h (Exn ''TypeError'') (toastError h)) ToastError,
                   ConsoleError]
        | Some c \<Rightarrow> \<exists>ids us ps rest.
            mid = BatchMintClaimFractionsFromAllowlists ids us ps # rest)"
    using first by (auto split: option.splits)
  from None whole all_flags first' end_False show ?thesis
    by blast
qed


lemma example_run_resolves: "snd (initializeWrite (example_hook [''1''] 1)) = None"
  by (simp add: initializeWrite_def example_hook_def example_verifier_def)

theorem txPending_scoped_witness:
  "txPending_after False (fst (initializeWrite (example_hook [''1''] 1))) = False \<and>
   (\<exists>pre mid.
      fst (initializeWrite (example_hook [''1''] 1)) =
        pre @ [SetStep minting, SetTxPending True] @ mid @ [SetTxPending False] \<and>
      map snd (observed False (fst (initializeWrite (example_hook [''1''] 1)))) =
        replicate (length pre) False @ [False, False] @ replicate (length mid) True @ [True] \<and>
      (\<exists>ids us ps rest. mid = BatchMintClaimFractionsFromAllowlists ids us ps # rest))"
  using txPending_scoped [of "example_hook [''1''] 1"] example_run_resolves
  by (simp add: example_hook_def)

text \<open>
  The flag is true outside the time between submission and resolution: with no client
  it is true at the error notification of a run that submits nothing, and in a run mined
  with status 1 it is still true, after \<open>tx.wait(5)\<close> has returned the receipt, at the
  success notification, at \<open>setStep("complete")\<close> and at the completion callback.
\<close>

theorem txPending_outside_window:
  "observed False (fst (initializeWrite example_hook_no_client)) =
     [(SetStep proofs, False), (VerifyFractionClaim ''1'' ''0xaa'', False),
      (ConsoleLog, False), (ConsoleLog, False), (ConsoleLog, False), (ConsoleLog, False),
      (SetStep minting, False), (SetTxPending True, False),
      (Toast ''Failed'' ToastError, True), (ConsoleError, True),
      (SetTxPending False, True)] \<and>
   observed False (fst (initializeWrite (example_hook [''1''] 1))) =
     [(SetStep proofs, False), (VerifyFractionClaim ''1'' ''0xaa'', False),
      (ConsoleLog, False), (ConsoleLog, False), (ConsoleLog, False), (ConsoleLog, False),
      (SetStep minting, False), (SetTxPending True, False),
      (BatchMintClaimFractionsFromAllowlists [''1''] [50] [[''0x0a'', ''0x0b'']], True),
      (SetStep waiting, True), (TxWait 5, True),
      (Toast ''Minted'' ToastSuccess, True), (SetStep complete, True), (OnComplete, True),
      (SetTxPending False, True)]"
  by (simp add: initializeWrite_def example_hook_no_client_def example_hook_def
      example_verifier_def client_with_status_def
      try_catch_finally_def try_body_def on_receipt_def claimIDs_of_def units_of_def proofs_of_def
      unique_of_def verified_of_def uniqWith_def isEqual_def BigInt_def proof_A_def)

subsection \<open>The eligibility query\<close>

lemma lower_example: "toLowerCase ''0xAA'' = ''0xaa''"
  by code_simp

text \<open>
  C6. For every address, when the table answers, the query returns, in table order, the
  claim ids of exactly the rows whose address equals the lower-cased argument and whose
  hidden flag is false, and logs nothing; when the table reports an error, the query logs
  it and returns the empty list.
\<close>

theorem eligibility_query_rows:
  "useGetAllEligibility (Up rows) addr =
     ([], map (\<lambda>x. claimId x)
            (filter (\<lambda>x. eligibility_row.address x = toLowerCase addr \<and> hidden x = False) rows)) \<and>
   useGetAllEligibility (Down e) addr = ([Message ''Supabase error:'', ErrorObject e], [])"
  by (simp add: useGetAllEligibility_def column_def)

theorem eligibility_query_rows_witness:
  "useGetAllEligibility (Up example_rows) ''0xAA'' = ([], [''1'', ''4'']) \<and>
   useGetAllEligibility (Down (Exn ''unreachable'')) ''0xAA'' =
     ([Message ''Supabase error:'', ErrorObject (Exn ''unreachable'')], [])"
  using eligibility_query_rows [of example_rows "''0xAA''" "Exn ''unreachable''"]
  unfolding lower_example
  by (simp add: example_rows_def)

section \<open>Properties of the Hyperboard contracts\<close>

subsection \<open>Consent by signature\<close>

text \<open>
  C7. For every call of \<open>consentForHyperboardWithSignature\<close>: when the address recovered
  from the typed-data digest of the token id and the claim id under the signature is not
  \<open>signer\<close>, the call reverts with \<open>InvalidSigner\<close>; and when the call succeeds, the
  recovered address is \<open>signer\<close>, the HypercertMinter's \<open>ownerOf\<close> of the claim id is
  \<open>signer\<close>, and the new state is the old one with the claim id appended to the consented
  list of the hyperboard token. A call that reverts changes nothing.
\<close>

theorem consent_signature_checked:
  "(ECDSA_recover env (getDigestForConsent env tokenId cid) v r s = Inr recovered \<and>
      recovered \<noteq> signer \<longrightarrow>
      consentForHyperboardWithSignature env st sender tokenId cid signer r s v =
        Inl InvalidSigner) \<and>
   (consentForHyperboardWithSignature env st sender tokenId cid signer r s v = Inr (st', evs) \<longrightarrow>
      ECDSA_recover env (getDigestForConsent env tokenId cid) v r s = Inr signer \<and>
      HypercertMinter_ownerOf env (hypercertMinter st) cid = Inr signer \<and>
      st' = st\<lparr>consentBasedCertsMapping :=
                 (consentBasedCertsMapping st)
                   (tokenId := consentBasedCertsMapping st tokenId @ [cid])\<rparr>)"
  by (auto simp: consentForHyperboardWithSignature_def consentForHyperboard'_def
      getDigestForConsent_def Let_def split: sum.splits if_splits)

theorem consent_signature_checked_witness:
  "consentForHyperboardWithSignature example_chain example_board 0xF6 0 9 0xA1 2 5 27
     = Inl InvalidSigner \<and>
   ECDSA_recover example_chain (getDigestForConsent example_chain 0 9) 27 1 5 = Inr 0xA1 \<and>
   HypercertMinter_ownerOf example_chain (hypercertMinter example_board) 9 = Inr 0xA1 \<and>
   consentBasedCertsMapping
     (fst (projr (consentForHyperboardWithSignature example_chain example_board 0xF6 0 9 0xA1
        1 5 27))) 0 = [9]"
  using consent_signature_checked
      [of example_chain 0 9 27 2 5 "0xB2" "0xA1" example_board "0xF6"]
    consent_signature_checked
      [of example_chain 0 9 27 1 5 "0xA1" "0xA1" example_board "0xF6"
      "fst (projr (consentForHyperboardWithSignature example_chain example_board 0xF6 0 9 0xA1
        1 5 27))"
      "snd (projr (consentForHyperboardWithSignature example_chain example_board 0xF6 0 9 0xA1
        1 5 27))"]
  by (simp add: example_chain_def example_board_def consentForHyperboardWithSignature_def
      consentForHyperboard'_def getDigestForConsent_def)

subsection \<open>The minter setter\<close>

text \<open>
  C10. For every argument, \<open>setHypercertContract\<close> returns the state it was called on:
  a call that succeeds leaves \<open>hypercertMinter\<close> and every other state variable as they
  were and emits one \<open>HypercertMinterUpdated\<close> event, which carries the stored minter
  address, not the argument. The owner's call succeeds; any other caller's call is
  reverted by \<open>onlyOwner\<close>.
\<close>

theorem setHypercertContract_keeps_state:
  "(setHypercertContract st sender newMinter = Inr (st', evs) \<longrightarrow>
      st' = st \<and> evs = [HypercertMinterUpdated (hypercertMinter st)]) \<and>
   (sender = Hyperboard.owner st \<longrightarrow>
      setHypercertContract st sender newMinter =
        Inr (st, [HypercertMinterUpdated (hypercertMinter st)])) \<and>
   (sender \<noteq> Hyperboard.owner st \<longrightarrow>
      setHypercertContract st sender newMinter =
        Inl (Revert ''Ownable: caller is not the owner''))"
  by (auto simp: setHypercertContract_def onlyOwner_def)

theorem setHypercertContract_keeps_state_witness:
  "setHypercertContract example_board 0xD4 0x77 =
     Inr (example_board, [HypercertMinterUpdated 0xC3]) \<and>
   hypercertMinter example_board \<noteq> 0x77 \<and>
   setHypercertContract example_board 0xF6 0x77 = Inl (Revert ''Ownable: caller is not the owner'')"
  using setHypercertContract_keeps_state
      [of example_board "0xD4" "0x77" example_board "[HypercertMinterUpdated 0xC3]"]
    setHypercertContract_keeps_state [of example_board "0xF6" "0x77"]
  by (simp add: example_board_def)

text \<open>The sibling setter, for comparison, stores its argument.\<close>

lemma setBaseUri_stores:
  "sender = Hyperboard.owner st \<Longrightarrow>
   setBaseUri st sender uri = Inr (st\<lparr>Hyperboard.baseUri := uri\<rparr>, [BaseUriUpdated uri])"
  by (simp add: setBaseUri_def onlyOwner_def)

subsection \<open>The constructor of the allowlist variant\<close>

text \<open>
  C9. For every choice of constructor arguments, zero or not, the constructor reverts with
  \<open>ZeroAddress\<close>: its guards read the state variables, which are still zero.
\<close>

theorem constructor_always_reverts:
  "constructor name' symbol' subgraphEndpoint' baseUri' walletImpl' erc6551Registry' =
     Inl ZeroAddress"
  by (simp add: constructor_def constructor_body_def fresh_storage_def)

theorem constructor_always_reverts_witness:
  "(0x11::address) \<noteq> 0 \<and> (0x22::address) \<noteq> 0 \<and>
   constructor ''Hyperboard'' ''HB'' ''graph'' ''ipfs'' 0x11 0x22 = Inl ZeroAddress"
  using constructor_always_reverts [of "''Hyperboard''" "''HB''" "''graph''" "''ipfs''" "0x11" "0x22"]
  by simp

subsection \<open>Updating the allowlist of a token\<close>

lemma minted_board_facts:
  "mint example_registry configured_storage 0xA1 [0xCE] [[1, 2]] 0 = Inr (minted_board, 0) \<and>
   ownerOf minted_board 0 = Inr 0xA1 \<and>
   HyperboardNFT.counter minted_board = 1 \<and>
   getAllowListedCerts minted_board 0 = [0xCE] \<and>
   getAllowListedClaimIds minted_board 0 0xCE = [1, 2] \<and>
   getAllowListedClaimIds minted_board 1 0xCE = []"
  by (simp add: minted_board_def mint_def mint'_def setAllowlist_def setAllowlist_body_def
      configured_storage_def fresh_storage_def example_registry_def ownerOf_def
      getAllowListedCerts_def getAllowListedClaimIds_def)

text \<open>
  C8. On the board where token 0 was minted to \<open>0xA1\<close> with the claim ids \<open>[1, 2]\<close> for the
  certificate \<open>0xCE\<close>, the owner's call \<open>updateAllowListedCerts(0, [0xCE], [[7]])\<close> succeeds;
  afterwards \<open>getAllowListedClaimIds(0, 0xCE)\<close> still returns \<open>[1, 2]\<close>, and the new list
  \<open>[7]\<close> is stored under token 1, the current value of the counter.
\<close>

theorem update_writes_other_token:
  "(case updateAllowListedCerts minted_board 0xA1 0 [0xCE] [[7]] of
      Inl e \<Rightarrow> False
    | Inr st \<Rightarrow>
        getAllowListedCerts st 0 = [0xCE] \<and>
        getAllowListedClaimIds st 0 0xCE = [1, 2] \<and>
        getAllowListedClaimIds st 1 0xCE = [7])"
  by (simp add: minted_board_def mint_def mint'_def example_registry_def
      updateAllowListedCerts_def ownerOf_def setAllowlist_def
      setAllowlist_body_def getAllowListedCerts_def getAllowListedClaimIds_def
      configured_storage_def fresh_storage_def)

text \<open>
  In general the loop writes under the counter only, so an update of any other token
  leaves that token's claim-id lists as they were; and a successful update was called by
  the owner of the token.
\<close>

lemma fold_setAllowlist_body:
  "allowListedCertsMapping (fold (setAllowlist_body certs ids) js st) t =
     (if t = HyperboardNFT.counter st
      then (allowListedCertsMapping st t)
             \<lparr>claimIds := fold (\<lambda>i m. m(certs ! i := ids ! i)) js
                            (claimIds (allowListedCertsMapping st t))\<rparr>
      else allowListedCertsMapping st t) \<and>
   HyperboardNFT.counter (fold (setAllowlist_body certs ids) js st) = HyperboardNFT.counter st"
  by (induction js arbitrary: st) (auto simp: setAllowlist_body_def)

lemma update_misses_token:
  assumes "updateAllowListedCerts st sender tokenId certs ids = Inr st'"
    and "tokenId \<noteq> HyperboardNFT.counter st"
  shows "getAllowListedClaimIds st' tokenId cert = getAllowListedClaimIds st tokenId cert"
    and "HyperboardNFT.owners st tokenId = sender"
  using assms
  by (auto simp: updateAllowListedCerts_def ownerOf_def setAllowlist_def getAllowListedClaimIds_def
      fold_setAllowlist_body split: if_splits)

end
